theory Spec2Isabelle
  imports Main
begin

section \<open>The attribution model of inseq: data\<close>

text \<open>
  The file embeds \<^verbatim>\<open>src/inseq/models/attribution_model.py\<close>: the class
  \<^verbatim>\<open>AttributionModel\<close> and the module function \<^verbatim>\<open>load\<close>.
  Exceptions are values of \<open>error\<close>; a method that mutates \<^verbatim>\<open>self\<close> takes the
  object and returns it updated next to its result.
\<close>

datatype error =
    MissingAttributionMethodError
  | LengthMismatchError nat nat  \<comment> \<open>input length, reference length (the two numbers of the message)\<close>
  | TypeError  \<comment> \<open>a call statement gives a keyword twice\<close>

text \<open>\<^verbatim>\<open>TextInput\<close>: a single string or a sequence of strings.\<close>

datatype TextInput = Str string | Seq "string list"

text \<open>
  \<^verbatim>\<open>OneOrMoreFeatureAttributionSequenceOutputs\<close>: one output object or a list of them.
  The output type itself is opaque here.
\<close>

datatype 'out outputs = One 'out | Many "'out list"

text \<open>
  A \<^verbatim>\<open>FeatureAttribution\<close> object: the name it was loaded under and its identity
  (Python objects are compared by identity; \<open>instance_id\<close> numbers the instances bound to
  one model in the order of their construction).
\<close>

record FeatureAttribution =
  method_name :: string
  instance_id :: nat

datatype device = Cuda0 | Cpu

text \<open>A keyword dictionary is a map from names to values of an opaque type.\<close>

type_synonym 'v args = "string \<rightharpoonup> 'v"

text \<open>
  The \<^verbatim>\<open>**kwargs\<close> of \<^verbatim>\<open>attribute\<close>: the two entries the method pops are
  dictionaries when present; everything else is in \<open>other\<close>.
\<close>

record 'v kwargs =
  generation_args :: "'v args option"
  attribution_args :: "'v args option"
  other :: "'v args"

text \<open>
  What \<^verbatim>\<open>prepare_and_attribute\<close> receives as its first argument: the normalised texts,
  or the encoding that replaced them when the references were generated.
\<close>

datatype 'enc sources = Texts "string list" | Encoded 'enc

text \<open>
  The calls that the statements of this file make to the attribution method, to the
  adapter's primitives, to the wrapped network and to \<^verbatim>\<open>get_attribution_method\<close>,
  in the order in which they are made. What a callee outside this file calls in turn (the
  decorator of \<^verbatim>\<open>generate\<close>, say) is not recorded. The log is a ghost field of the
  model: the code does not store it.
\<close>

datatype ('enc, 'v) call =
    GetAttributionMethod "string option" "bool option"
  | Unhook FeatureAttribution
  | Load FeatureAttribution
  | EncodeTexts "string list" bool
  | Generate 'enc bool "'v args"
  | GetAttributionArgs FeatureAttribution "'v kwargs"
  | PrepareAndAttribute FeatureAttribution "'enc sources" "string list" "int option" "int option" "'v args"
  | ModelTo device
  | ModelEval
  | ModelZeroGrad

text \<open>
  The fields of an \<^verbatim>\<open>AttributionModel\<close> instance. \<open>fresh\<close> (the next instance
  identity) and \<open>calls\<close> are ghost fields. No statement of this file writes
  \<open>is_hooked\<close> after \<^verbatim>\<open>__init__\<close>; what the attribution methods do to it is
  outside the model, and no claim below about a call that reaches them speaks of it.
\<close>

record ('enc, 'v, 'net) AttributionModel =
  model :: "'net option"
  attribution_method :: "FeatureAttribution option"
  is_hooked :: bool
  device :: "device option"
  fresh :: nat
  calls :: "('enc, 'v) call list"

text \<open>
  The abstract operations and the methods of the attribution object whose results
  \<^verbatim>\<open>attribute\<close> uses. Their code is not in this file of the repository; they are
  parameters of the model, and every theorem below holds for all of them. They are taken to
  return: an exception of theirs is outside the model.
\<close>

record ('enc, 'out, 'v) adapter =
  encode_texts :: "string list \<Rightarrow> bool \<Rightarrow> 'enc"
  generate :: "'enc \<Rightarrow> bool \<Rightarrow> 'v args \<Rightarrow> string list"
  get_attribution_args :: "FeatureAttribution \<Rightarrow> 'v kwargs \<Rightarrow> 'v args"
  prepare_and_attribute ::
    "FeatureAttribution \<Rightarrow> 'enc sources \<Rightarrow> string list \<Rightarrow> int option \<Rightarrow> int option
      \<Rightarrow> 'v args \<Rightarrow> 'out outputs"

section \<open>Python truth values\<close>

text \<open>\<^verbatim>\<open>if method\<close> for an \<^verbatim>\<open>Optional[str]\<close>: \<^verbatim>\<open>None\<close> and the empty string are false.\<close>

definition truthy_str :: "string option \<Rightarrow> bool" where
  "truthy_str s = (case s of None \<Rightarrow> False | Some n \<Rightarrow> n \<noteq> [])"

text \<open>\<^verbatim>\<open>if flag\<close> for an \<^verbatim>\<open>Optional[bool]\<close>.\<close>

definition truthy_flag :: "bool option \<Rightarrow> bool" where
  "truthy_flag b = (case b of None \<Rightarrow> False | Some v \<Rightarrow> v)"

text \<open>\<^verbatim>\<open>if texts\<close> for a \<^verbatim>\<open>TextInput\<close>: the empty string and the empty sequence are false.\<close>

definition truthy_text :: "TextInput \<Rightarrow> bool" where
  "truthy_text t = (case t of Str s \<Rightarrow> s \<noteq> [] | Seq xs \<Rightarrow> xs \<noteq> [])"

text \<open>\<^verbatim>\<open>if reference_texts\<close> for an optional list.\<close>

definition truthy_list :: "'a list option \<Rightarrow> bool" where
  "truthy_list l = (case l of None \<Rightarrow> False | Some xs \<Rightarrow> xs \<noteq> [])"

text \<open>\<^verbatim>\<open>k in d\<close> for a keyword dictionary.\<close>

definition has_key :: "'v args \<Rightarrow> string \<Rightarrow> bool" where
  "has_key d k = (case d k of None \<Rightarrow> False | Some _ \<Rightarrow> True)"

section \<open>The attribution method's own operations\<close>

definition log :: "('enc, 'v) call \<Rightarrow> ('enc, 'v, 'net) AttributionModel
    \<Rightarrow> ('enc, 'v, 'net) AttributionModel" where
  "log c self = self\<lparr>calls := calls self @ [c]\<rparr>"

text \<open>
  \<^verbatim>\<open>FeatureAttribution.unhook\<close> is outside this file of the repository; the model
  records that it was called and on which instance.
\<close>

definition unhook :: "FeatureAttribution \<Rightarrow> ('enc, 'v, 'net) AttributionModel
    \<Rightarrow> ('enc, 'v, 'net) AttributionModel" where
  "unhook fa self = log (Unhook fa) self"

text \<open>
  Modelled from the spec: \<^verbatim>\<open>FeatureAttribution.load(method, attribution_model)\<close> is
  not in this file of the repository. In the spec's words it "constructs/binds a method to a
  model": the model returns a new instance of the named method, with an identity no earlier
  instance of this model has.
\<close>

definition FeatureAttribution_load :: "string \<Rightarrow> ('enc, 'v, 'net) AttributionModel
    \<Rightarrow> FeatureAttribution \<times> ('enc, 'v, 'net) AttributionModel" where
  "FeatureAttribution_load method self =
     (let fa = \<lparr>method_name = method, instance_id = fresh self\<rparr>
      in (fa, log (Load fa) (self\<lparr>fresh := Suc (fresh self)\<rparr>)))"

section \<open>The methods of AttributionModel\<close>

text \<open>
  \<^verbatim>\<open>get_attribution_method(method, override_default_attribution)\<close>. A
  \<^verbatim>\<open>FeatureAttribution\<close> object is true in a condition (the class defines neither
  \<^verbatim>\<open>__bool__\<close> nor \<^verbatim>\<open>__len__\<close> in the spec), so
  \<^verbatim>\<open>if self.attribution_method\<close> asks whether the field is not \<^verbatim>\<open>None\<close>.
\<close>

definition get_attribution_method :: "('enc, 'v, 'net) AttributionModel \<Rightarrow> string option
    \<Rightarrow> bool option \<Rightarrow> (error + FeatureAttribution) \<times> ('enc, 'v, 'net) AttributionModel" where
  "get_attribution_method self0 method override_default_attribution =
     (let self = log (GetAttributionMethod method override_default_attribution) self0 in
      if \<not> truthy_str method then
        (case attribution_method self of
           None \<Rightarrow> (Inl MissingAttributionMethodError, self)
         | Some d \<Rightarrow> (Inr d, self))
      else
        (let self1 = (case attribution_method self of
                        None \<Rightarrow> self
                      | Some d \<Rightarrow> unhook d self)
         in if truthy_flag override_default_attribution \<or> attribution_method self1 = None then
              (let (fa, self2) = FeatureAttribution_load (the method) self1;
                   self3 = self2\<lparr>attribution_method := Some fa\<rparr>
               in (Inr fa, self3))
            else
              (let (fa, self2) = FeatureAttribution_load (the method) self1
               in (Inr fa, self2))))"

text \<open>The method \<^verbatim>\<open>setup\<close> (the name is reserved in Isabelle, hence the suffix): choose
  the device; move a wrapped network there, in evaluation mode, with cleared gradients.
  \<^verbatim>\<open>if self.model\<close> is Python's truth value of the network, which is an object of
  another library (a container of no layers is false): \<open>truthy_net\<close> gives it.\<close>

definition setup_model :: "('net \<Rightarrow> bool) \<Rightarrow> bool \<Rightarrow> ('enc, 'v, 'net) AttributionModel
    \<Rightarrow> ('enc, 'v, 'net) AttributionModel" where
  "setup_model truthy_net cuda_is_available self =
     (let dev = (if cuda_is_available then Cuda0 else Cpu);
          self1 = self\<lparr>device := Some dev\<rparr>
      in case model self1 of
           None \<Rightarrow> self1
         | Some net \<Rightarrow>
             if truthy_net net
             then log ModelZeroGrad (log ModelEval (log (ModelTo dev) self1))
             else self1)"

text \<open>
  \<^verbatim>\<open>__init__(attribution_method)\<close>. \<open>pre_model\<close> is the attribute
  \<^verbatim>\<open>model\<close> a subclass may have set before: \<open>None\<close> when the attribute does not
  exist, \<open>Some v\<close> when it has the value \<open>v\<close>. The method is resolved with the
  default of the override flag, \<^verbatim>\<open>False\<close>. The new object's log starts empty.
\<close>

definition init :: "('net \<Rightarrow> bool) \<Rightarrow> 'net option option \<Rightarrow> bool \<Rightarrow> string option
    \<Rightarrow> error + ('enc, 'v, 'net) AttributionModel" where
  "init truthy_net pre_model cuda_is_available attribution_method_arg =
     (let self = \<lparr>model = (case pre_model of None \<Rightarrow> None | Some v \<Rightarrow> v),
                  attribution_method = None,
                  is_hooked = False,
                  device = None,
                  fresh = 0,
                  calls = []\<rparr>
      in case get_attribution_method self attribution_method_arg (Some False) of
           (Inl e, _) \<Rightarrow> Inl e
         | (Inr fa, self1) \<Rightarrow>
             Inr (setup_model truthy_net cuda_is_available (self1\<lparr>attribution_method := Some fa\<rparr>)))"

text \<open>\<^verbatim>\<open>format_input_texts(texts, ref_texts)\<close>.\<close>

definition format_input_texts :: "TextInput \<Rightarrow> TextInput option
    \<Rightarrow> error + (string list \<times> string list option)" where
  "format_input_texts texts ref_texts =
     (let texts1 = (case texts of Str s \<Rightarrow> [s] | Seq xs \<Rightarrow> xs);
          reference_texts = (case ref_texts of
                               None \<Rightarrow> None
                             | Some (Str s) \<Rightarrow> Some [s]
                             | Some (Seq xs) \<Rightarrow> Some xs)
      in case reference_texts of
           None \<Rightarrow> Inr (texts1, reference_texts)
         | Some rs \<Rightarrow>
             if rs \<noteq> [] \<and> length texts1 \<noteq> length rs
             then Inl (LengthMismatchError (length texts1) (length rs))
             else Inr (texts1, reference_texts))"

text \<open>
  \<^verbatim>\<open>attribute(texts, reference_texts, method, override_default_attribution,
  attr_pos_start, attr_pos_end, **kwargs)\<close>. \<^verbatim>\<open>kwargs.pop(k, {})\<close> reads the entry and
  removes it.

  Two of its call statements name a keyword and pass a dictionary as well:
  \<^verbatim>\<open>generate(texts, return_generation_output=False, **generation_args)\<close> and
  \<^verbatim>\<open>prepare_and_attribute(texts, reference_texts, attr_pos_start=..., attr_pos_end=...,
  **attribution_args)\<close>. When the dictionary holds a keyword the statement names, Python
  raises TypeError in the caller, after the arguments are evaluated and before the callee
  is entered: the call is not made and not logged.
\<close>

definition attribute :: "('enc, 'out, 'v) adapter \<Rightarrow> ('enc, 'v, 'net) AttributionModel
    \<Rightarrow> TextInput \<Rightarrow> TextInput option \<Rightarrow> string option \<Rightarrow> bool option
    \<Rightarrow> int option \<Rightarrow> int option \<Rightarrow> 'v kwargs
    \<Rightarrow> (error + 'out outputs) \<times> ('enc, 'v, 'net) AttributionModel" where
  "attribute ad self texts reference_texts method override_default_attribution
       attr_pos_start attr_pos_end kw =
     (if \<not> truthy_text texts then (Inr (Many []), self)
      else case format_input_texts texts reference_texts of
        Inl e \<Rightarrow> (Inl e, self)
      | Inr (texts1, reference_texts1) \<Rightarrow>
          (case (if \<not> truthy_list reference_texts1 then
                   (let enc = encode_texts ad texts1 True;
                        self_e = log (EncodeTexts texts1 True) self;
                        gen_args = (case generation_args kw of None \<Rightarrow> Map.empty | Some g \<Rightarrow> g);
                        kw_g = kw\<lparr>generation_args := None\<rparr>
                    in if has_key gen_args ''return_generation_output''
                       then (Inl TypeError, self_e)
                       else (Inr (Encoded enc, generate ad enc False gen_args, kw_g),
                             log (Generate enc False gen_args) self_e))
                 else (Inr (Texts texts1, the reference_texts1, kw), self)) of
             (Inl e, self1) \<Rightarrow> (Inl e, self1)
           | (Inr (srcs, refs, kw1), self1) \<Rightarrow>
               (case get_attribution_method self1 method override_default_attribution of
                  (Inl e, self2) \<Rightarrow> (Inl e, self2)
                | (Inr fa, self2) \<Rightarrow>
                    (let attr_args0 = (case attribution_args kw1 of None \<Rightarrow> Map.empty | Some a \<Rightarrow> a);
                         kw2 = kw1\<lparr>attribution_args := None\<rparr>;
                         attr_args = attr_args0 ++ get_attribution_args ad fa kw2;
                         self3 = log (GetAttributionArgs fa kw2) self2
                     in if has_key attr_args ''attr_pos_start'' \<or> has_key attr_args ''attr_pos_end''
                        then (Inl TypeError, self3)
                        else (Inr (prepare_and_attribute ad fa srcs refs attr_pos_start attr_pos_end
                                     attr_args),
                              log (PrepareAndAttribute fa srcs refs attr_pos_start attr_pos_end
                                     attr_args) self3)))))"

section \<open>The module function load\<close>

text \<open>
  \<^verbatim>\<open>load(model_name_or_path, attribution_method, **kwargs)\<close>. The class
  \<^verbatim>\<open>HuggingfaceModel\<close> is in another file: its constructor is the parameter \<open>hf\<close>.
  The values of this dictionary can be anything; \<open>truthy\<close> is Python's truth value of one.
\<close>

definition load :: "('v \<Rightarrow> bool) \<Rightarrow> (string \<Rightarrow> string option \<Rightarrow> 'v args \<Rightarrow> 'm)
    \<Rightarrow> string \<Rightarrow> string option \<Rightarrow> 'v args \<Rightarrow> 'm" where
  "load truthy hf model_name_or_path attribution_method_arg kw =
     (let from_hf = kw ''from_hf'';
          kw1 = kw(''from_hf'' := None)
      in if (case from_hf of None \<Rightarrow> False | Some v \<Rightarrow> truthy v)
         then hf model_name_or_path attribution_method_arg kw1
         else hf model_name_or_path attribution_method_arg kw1)"

text \<open>The static method \<^verbatim>\<open>AttributionModel.load\<close> passes its arguments on.\<close>

definition AttributionModel_load :: "('v \<Rightarrow> bool) \<Rightarrow> (string \<Rightarrow> string option \<Rightarrow> 'v args \<Rightarrow> 'm)
    \<Rightarrow> string \<Rightarrow> string option \<Rightarrow> 'v args \<Rightarrow> 'm" where
  "AttributionModel_load truthy hf model_name_or_path attribution_method_arg kw =
     load truthy hf model_name_or_path attribution_method_arg kw"


section \<open>Concrete inputs\<close>

text \<open>
  The list of texts a \<^verbatim>\<open>TextInput\<close> stands for: a single string is the one-element
  list of itself (the first line of \<^verbatim>\<open>format_input_texts\<close>).
\<close>

definition text_list :: "TextInput \<Rightarrow> string list" where
  "text_list t = (case t of Str s \<Rightarrow> [s] | Seq xs \<Rightarrow> xs)"

text \<open>
  Names for the statements below, after the lines of \<^verbatim>\<open>attribute\<close>: the generation
  options (line 127), whether reference texts were given and are not empty (line 125), what
  the attribution method is run on (the texts and their references, or the encoding and the
  generated texts), the options left for \<^verbatim>\<open>get_attribution_args\<close>, the merged
  attribution options (lines 134-135), and whether these repeat a keyword that the call of
  \<^verbatim>\<open>prepare_and_attribute\<close> names.
\<close>

definition generation_args_of :: "'v kwargs \<Rightarrow> 'v args" where
  "generation_args_of kw = (case generation_args kw of None \<Rightarrow> Map.empty | Some g \<Rightarrow> g)"

definition references_given :: "TextInput option \<Rightarrow> bool" where
  "references_given refs = (case refs of None \<Rightarrow> False | Some r \<Rightarrow> text_list r \<noteq> [])"

definition method_inputs :: "('enc, 'out, 'v) adapter \<Rightarrow> TextInput \<Rightarrow> TextInput option
    \<Rightarrow> 'v kwargs \<Rightarrow> 'enc sources \<times> string list" where
  "method_inputs ad texts refs kw =
     (if references_given refs
      then (Texts (text_list texts), (case refs of None \<Rightarrow> [] | Some r \<Rightarrow> text_list r))
      else (Encoded (encode_texts ad (text_list texts) True),
            generate ad (encode_texts ad (text_list texts) True) False (generation_args_of kw)))"

definition method_kwargs :: "TextInput option \<Rightarrow> 'v kwargs \<Rightarrow> 'v kwargs" where
  "method_kwargs refs kw =
     (if references_given refs then kw\<lparr>attribution_args := None\<rparr>
      else kw\<lparr>generation_args := None, attribution_args := None\<rparr>)"

definition merged_attribution_args :: "('enc, 'out, 'v) adapter \<Rightarrow> FeatureAttribution
    \<Rightarrow> TextInput option \<Rightarrow> 'v kwargs \<Rightarrow> 'v args" where
  "merged_attribution_args ad fa refs kw =
     (case attribution_args kw of None \<Rightarrow> Map.empty | Some a \<Rightarrow> a)
       ++ get_attribution_args ad fa (method_kwargs refs kw)"

definition keyword_clash :: "'v args \<Rightarrow> bool" where
  "keyword_clash aa = (has_key aa ''attr_pos_start'' \<or> has_key aa ''attr_pos_end'')"


text \<open>
  Modelled from the spec: a concrete adapter, for evaluating the methods on concrete inputs.
  The encoding keeps the texts and the baseline flag, the generated text of an input is the
  input itself, the method-specific options are the remaining options, and
  \<^verbatim>\<open>prepare_and_attribute\<close> returns one output (the pair of a text and its reference)
  per input pair.
\<close>

definition sample_adapter :: "(string list \<times> bool, string \<times> string, nat) adapter" where
  "sample_adapter =
     \<lparr>encode_texts = (\<lambda>ts baseline. (ts, baseline)),
      generate = (\<lambda>enc flag ga. fst enc),
      get_attribution_args = (\<lambda>fa kw. other kw),
      prepare_and_attribute = (\<lambda>fa srcs refs a b aa.
         Many (zip (case srcs of Texts ts \<Rightarrow> ts | Encoded enc \<Rightarrow> fst enc) refs))\<rparr>"

definition method_A :: FeatureAttribution where
  "method_A = \<lparr>method_name = ''A'', instance_id = 0\<rparr>"

text \<open>A model whose stored default is the method A, and one with no stored default.\<close>

definition model_A :: "(string list \<times> bool, nat, unit) AttributionModel" where
  "model_A = \<lparr>model = None, attribution_method = Some method_A, is_hooked = False,
              device = Some Cpu, fresh = 1, calls = []\<rparr>"

definition model_none :: "(string list \<times> bool, nat, unit) AttributionModel" where
  "model_none = \<lparr>model = None, attribution_method = None, is_hooked = False,
                 device = Some Cpu, fresh = 0, calls = []\<rparr>"

definition no_kwargs :: "nat kwargs" where
  "no_kwargs = \<lparr>generation_args = None, attribution_args = None, other = Map.empty\<rparr>"

text \<open>
  The same model for encodings that are lists of texts, and options whose generation
  options repeat the keyword \<^verbatim>\<open>return_generation_output\<close>.
\<close>

definition model_S :: "(string list, nat, unit) AttributionModel" where
  "model_S = \<lparr>model = None, attribution_method = Some method_A, is_hooked = False,
              device = Some Cpu, fresh = 1, calls = []\<rparr>"

definition clash_kwargs :: "nat kwargs" where
  "clash_kwargs = \<lparr>generation_args = Some [''return_generation_output'' \<mapsto> 1],
                   attribution_args = None, other = Map.empty\<rparr>"


section \<open>Resolving the attribution method\<close>

lemmas resolve_defs = get_attribution_method_def unhook_def log_def FeatureAttribution_load_def
  truthy_str_def truthy_flag_def

lemmas sample_defs = sample_adapter_def method_A_def model_A_def model_none_def no_kwargs_def
  model_S_def clash_kwargs_def

text \<open>
  What \<^verbatim>\<open>get_attribution_method\<close> does in each of its four cases, as a whole.
\<close>

lemma resolve_no_method:
  "\<not> truthy_str method \<Longrightarrow>
   get_attribution_method m method ovr =
     (case attribution_method m of
        None \<Rightarrow> Inl MissingAttributionMethodError
      | Some d \<Rightarrow> Inr d,
      m\<lparr>calls := calls m @ [GetAttributionMethod method ovr]\<rparr>)"
  by (simp add: resolve_defs Let_def split: option.splits)

lemma resolve_first_method:
  "attribution_method m = None \<Longrightarrow> B \<noteq> [] \<Longrightarrow>
   get_attribution_method m (Some B) ovr =
     (Inr \<lparr>method_name = B, instance_id = fresh m\<rparr>,
      m\<lparr>attribution_method := Some \<lparr>method_name = B, instance_id = fresh m\<rparr>,
        fresh := Suc (fresh m),
        calls := calls m @ [GetAttributionMethod (Some B) ovr,
                            Load \<lparr>method_name = B, instance_id = fresh m\<rparr>]\<rparr>)"
  by (simp add: resolve_defs Let_def)

lemma resolve_override:
  "attribution_method m = Some A \<Longrightarrow> B \<noteq> [] \<Longrightarrow> truthy_flag ovr \<Longrightarrow>
   get_attribution_method m (Some B) ovr =
     (Inr \<lparr>method_name = B, instance_id = fresh m\<rparr>,
      m\<lparr>attribution_method := Some \<lparr>method_name = B, instance_id = fresh m\<rparr>,
        fresh := Suc (fresh m),
        calls := calls m @ [GetAttributionMethod (Some B) ovr, Unhook A,
                            Load \<lparr>method_name = B, instance_id = fresh m\<rparr>]\<rparr>)"
  by (simp add: resolve_defs Let_def)

lemma resolve_one_off:
  "attribution_method m = Some A \<Longrightarrow> B \<noteq> [] \<Longrightarrow> \<not> truthy_flag ovr \<Longrightarrow>
   get_attribution_method m (Some B) ovr =
     (Inr \<lparr>method_name = B, instance_id = fresh m\<rparr>,
      m\<lparr>fresh := Suc (fresh m),
        calls := calls m @ [GetAttributionMethod (Some B) ovr, Unhook A,
                            Load \<lparr>method_name = B, instance_id = fresh m\<rparr>]\<rparr>)"
  by (simp add: resolve_defs Let_def)

text \<open>
  Whatever the arguments, the calls of \<^verbatim>\<open>get_attribution_method\<close> are its own entry,
  then calls of \<^verbatim>\<open>unhook\<close> and \<^verbatim>\<open>load\<close> only.
\<close>

lemma resolve_calls:
  "\<exists>ev. calls (snd (get_attribution_method m method ovr)) =
           calls m @ GetAttributionMethod method ovr # ev
        \<and> (\<forall>c \<in> set ev. (\<exists>fa. c = Unhook fa) \<or> (\<exists>fa. c = Load fa))"
proof (cases "truthy_str method")
  case False
  then show ?thesis by (simp add: resolve_no_method)
next
  case True
  then obtain B where B: "method = Some B" "B \<noteq> []"
    by (auto simp: truthy_str_def split: option.splits)
  show ?thesis
  proof (cases "attribution_method m")
    case None
    with B show ?thesis by (simp add: resolve_first_method)
  next
    case (Some A)
    with B show ?thesis
      by (cases "truthy_flag ovr") (simp_all add: resolve_override resolve_one_off)
  qed
qed

section \<open>Running an attribution\<close>

lemma format_input_texts_eq:
  "format_input_texts texts refs =
     (case refs of
        None \<Rightarrow> Inr (text_list texts, None)
      | Some r \<Rightarrow>
          if text_list r \<noteq> [] \<and> length (text_list texts) \<noteq> length (text_list r)
          then Inl (LengthMismatchError (length (text_list texts)) (length (text_list r)))
          else Inr (text_list texts, Some (text_list r)))"
  by (simp add: format_input_texts_def text_list_def Let_def split: option.splits TextInput.splits)

text \<open>What the length check returns when it passes.\<close>

lemma format_input_texts_Inr:
  assumes "format_input_texts texts refs = Inr (ts, r)"
  shows "ts = text_list texts" and "r = map_option text_list refs"
    and "truthy_list r = references_given refs"
    and "references_given refs \<Longrightarrow> (case refs of None \<Rightarrow> [] | Some x \<Rightarrow> text_list x) = the r"
    and "references_given refs \<Longrightarrow> length (the r) = length (text_list texts)"
  using assms
  by (auto simp: format_input_texts_eq truthy_list_def references_given_def
           split: option.splits if_splits)

lemma resolve_no_length_error:
  "fst (get_attribution_method m method ovr) \<noteq> Inl (LengthMismatchError a b)"
  by (simp add: resolve_defs Let_def split: option.splits)

text \<open>The method that is resolved does not depend on the calls made before.\<close>

lemma resolve_after_log:
  "fst (get_attribution_method (log c m) method ovr) = fst (get_attribution_method m method ovr)"
  by (simp add: resolve_defs Let_def split: option.splits)

lemma attribute_falsy_texts:
  "\<not> truthy_text texts \<Longrightarrow>
   attribute ad m texts refs method ovr st en kw = (Inr (Many []), m)"
  by (simp add: attribute_def)

lemma attribute_length_error:
  "truthy_text texts \<Longrightarrow> format_input_texts texts refs = Inl e \<Longrightarrow>
   attribute ad m texts refs method ovr st en kw = (Inl e, m)"
  by (simp add: attribute_def)

text \<open>The ways past the length check, written out.\<close>

lemma attribute_with_references:
  assumes "truthy_text texts" and "format_input_texts texts refs = Inr p"
    and "references_given refs"
  shows "attribute ad m texts refs method ovr st en kw =
     (case get_attribution_method m method ovr of
        (Inl e, m2) \<Rightarrow> (Inl e, m2)
      | (Inr fa, m2) \<Rightarrow>
          (let aa = merged_attribution_args ad fa refs kw;
               m3 = log (GetAttributionArgs fa (method_kwargs refs kw)) m2
           in if keyword_clash aa then (Inl TypeError, m3)
              else (case method_inputs ad texts refs kw of
                      (srcs, rs) \<Rightarrow>
                        (Inr (prepare_and_attribute ad fa srcs rs st en aa),
                         log (PrepareAndAttribute fa srcs rs st en aa) m3))))"
proof -
  obtain ts r where p: "p = (ts, r)" by (cases p)
  note f = format_input_texts_Inr [OF assms(2) [unfolded p]]
  from f(3) assms(3) obtain rs where r: "r = Some rs" "rs \<noteq> []"
    by (auto simp: truthy_list_def split: option.splits)
  from f(4) [OF assms(3)] r have rs: "(case refs of None \<Rightarrow> [] | Some x \<Rightarrow> text_list x) = rs"
    by simp
  show ?thesis
    using assms(1,3) assms(2) [unfolded p] r rs f(1)
    by (simp add: attribute_def truthy_list_def Let_def merged_attribution_args_def
          method_kwargs_def method_inputs_def keyword_clash_def
          split: prod.splits sum.splits)
qed

lemma attribute_generate_clash:
  assumes "truthy_text texts" and "format_input_texts texts refs = Inr p"
    and "\<not> references_given refs"
    and "has_key (generation_args_of kw) ''return_generation_output''"
  shows "attribute ad m texts refs method ovr st en kw =
           (Inl TypeError, log (EncodeTexts (text_list texts) True) m)"
proof -
  obtain ts r where p: "p = (ts, r)" by (cases p)
  note f = format_input_texts_Inr [OF assms(2) [unfolded p]]
  show ?thesis
    using assms(1,3,4) assms(2) [unfolded p] f(1,3)
    by (simp add: attribute_def Let_def generation_args_of_def)
qed

lemma attribute_without_references:
  assumes "truthy_text texts" and "format_input_texts texts refs = Inr p"
    and "\<not> references_given refs"
    and "\<not> has_key (generation_args_of kw) ''return_generation_output''"
  shows "attribute ad m texts refs method ovr st en kw =
     (case get_attribution_method
             (log (Generate (encode_texts ad (text_list texts) True) False (generation_args_of kw))
                (log (EncodeTexts (text_list texts) True) m)) method ovr of
        (Inl e, m2) \<Rightarrow> (Inl e, m2)
      | (Inr fa, m2) \<Rightarrow>
          (let aa = merged_attribution_args ad fa refs kw;
               m3 = log (GetAttributionArgs fa (method_kwargs refs kw)) m2
           in if keyword_clash aa then (Inl TypeError, m3)
              else (case method_inputs ad texts refs kw of
                      (srcs, rs) \<Rightarrow>
                        (Inr (prepare_and_attribute ad fa srcs rs st en aa),
                         log (PrepareAndAttribute fa srcs rs st en aa) m3))))"
proof -
  obtain ts r where p: "p = (ts, r)" by (cases p)
  note f = format_input_texts_Inr [OF assms(2) [unfolded p]]
  show ?thesis
    using assms(1,3,4) assms(2) [unfolded p] f(1,3)
    by (simp add: attribute_def Let_def generation_args_of_def merged_attribution_args_def
          method_kwargs_def method_inputs_def keyword_clash_def
          split: prod.splits sum.splits)
qed


text \<open>No error of \<^verbatim>\<open>attribute\<close> past the length check is a LengthMismatchError.\<close>

lemma attribute_past_check_no_length_error:
  assumes "truthy_text texts" and "format_input_texts texts refs = Inr p"
  shows "fst (attribute ad m texts refs method ovr st en kw) \<noteq> Inl (LengthMismatchError a b)"
proof (cases "references_given refs")
  case True
  show ?thesis
    using resolve_no_length_error [of m "method" ovr a b]
    by (auto simp: attribute_with_references [OF assms True] Let_def
             split: prod.splits sum.splits)
next
  case False
  show ?thesis
  proof (cases "has_key (generation_args_of kw) ''return_generation_output''")
    case True
    then show ?thesis by (simp add: attribute_generate_clash [OF assms False True])
  next
    case nc: False
    show ?thesis
      using resolve_no_length_error
        [of "log (Generate (encode_texts ad (text_list texts) True) False (generation_args_of kw))
               (log (EncodeTexts (text_list texts) True) m)" "method" ovr a b]
      by (auto simp: attribute_without_references [OF assms False nc] Let_def
               split: prod.splits sum.splits)
  qed
qed

section \<open>Claims about get\_attribution\_method\<close>

text \<open>
  C1, as stated: with A the stored default, \<^verbatim>\<open>get_attribution_method("B",
  override_default=False)\<close> returns a new B instance, leaves A the stored default and does
  not invoke A's \<^verbatim>\<open>unhook\<close>. The last part fails: the default is unhooked before the
  branch on the override flag is taken, here on the model whose default is A.
\<close>

theorem one_off_method_unhooks_default_counterexample:
  "attribution_method model_A = Some method_A
   \<and> Unhook method_A \<in> set (calls (snd (get_attribution_method model_A (Some ''B'') (Some False))))"
  by (simp add: resolve_defs sample_defs Let_def)

text \<open>
  C1, amended: with A the stored default, a named method B and no override, the call returns
  the B instance that this call constructs, A stays the stored default, and the calls made
  are A's \<^verbatim>\<open>unhook\<close>, once, and then the construction of B. The new instance is not A
  (the identities below \<open>fresh\<close> are the ones in use).
\<close>

theorem one_off_method_keeps_default:
  assumes "attribution_method m = Some A" and "B \<noteq> []" and "\<not> truthy_flag ovr"
  shows "fst (get_attribution_method m (Some B) ovr) = Inr \<lparr>method_name = B, instance_id = fresh m\<rparr>
       \<and> attribution_method (snd (get_attribution_method m (Some B) ovr)) = Some A
       \<and> calls (snd (get_attribution_method m (Some B) ovr)) =
           calls m @ [GetAttributionMethod (Some B) ovr, Unhook A,
                      Load \<lparr>method_name = B, instance_id = fresh m\<rparr>]
       \<and> (instance_id A < fresh m \<longrightarrow> \<lparr>method_name = B, instance_id = fresh m\<rparr> \<noteq> A)"
  using assms by (auto simp: resolve_one_off)

theorem one_off_method_keeps_default_witness:
  "fst (get_attribution_method model_A (Some ''B'') (Some False)) = Inr \<lparr>method_name = ''B'', instance_id = 1\<rparr>
   \<and> attribution_method (snd (get_attribution_method model_A (Some ''B'') (Some False))) = Some method_A
   \<and> calls (snd (get_attribution_method model_A (Some ''B'') (Some False))) =
       [GetAttributionMethod (Some ''B'') (Some False), Unhook method_A,
        Load \<lparr>method_name = ''B'', instance_id = 1\<rparr>]
   \<and> \<lparr>method_name = ''B'', instance_id = 1\<rparr> \<noteq> method_A"
  using one_off_method_keeps_default [of model_A method_A "''B''" "Some False"]
  by (simp add: sample_defs truthy_flag_def)

text \<open>
  C3, as stated: for every non-\<^verbatim>\<open>None\<close> method argument, a stored default is unhooked
  before a new method is constructed. The empty string is not \<^verbatim>\<open>None\<close>, and
  \<^verbatim>\<open>if not method\<close> treats it as an omitted argument: the default is returned, and
  neither \<^verbatim>\<open>unhook\<close> nor \<^verbatim>\<open>load\<close> is called.
\<close>

theorem empty_method_name_no_unhook_counterexample:
  "attribution_method model_A = Some method_A
   \<and> get_attribution_method model_A (Some '''') (Some True) =
       (Inr method_A, model_A\<lparr>calls := [GetAttributionMethod (Some '''') (Some True)]\<rparr>)"
  by (simp add: resolve_defs sample_defs Let_def)

text \<open>
  C3, amended: for every call with a non-empty method name while a default A is stored, and
  whatever the override flag, the calls made are A's \<^verbatim>\<open>unhook\<close> and then the one
  construction of the new method.
\<close>

theorem unhook_before_construction:
  assumes "attribution_method m = Some A" and "B \<noteq> []"
  shows "calls (snd (get_attribution_method m (Some B) ovr)) =
           calls m @ [GetAttributionMethod (Some B) ovr, Unhook A,
                      Load \<lparr>method_name = B, instance_id = fresh m\<rparr>]"
  using assms by (cases "truthy_flag ovr") (simp_all add: resolve_override resolve_one_off)

theorem unhook_before_construction_witness:
  "calls (snd (get_attribution_method model_A (Some ''B'') (Some True))) =
     [GetAttributionMethod (Some ''B'') (Some True), Unhook method_A,
      Load \<lparr>method_name = ''B'', instance_id = 1\<rparr>]"
  using unhook_before_construction [of model_A method_A "''B''" "Some True"]
  by (simp add: sample_defs)

text \<open>
  C7: with A the stored default, \<^verbatim>\<open>get_attribution_method("B", override_default=True)\<close>
  makes the new B instance the stored default (and returns it), and among the calls it makes
  A's \<^verbatim>\<open>unhook\<close> occurs exactly once.
\<close>

theorem override_replaces_default:
  assumes "attribution_method m = Some A" and "B \<noteq> []"
  shows "attribution_method (snd (get_attribution_method m (Some B) (Some True))) =
           Some \<lparr>method_name = B, instance_id = fresh m\<rparr>
       \<and> fst (get_attribution_method m (Some B) (Some True)) =
           Inr \<lparr>method_name = B, instance_id = fresh m\<rparr>
       \<and> calls (snd (get_attribution_method m (Some B) (Some True))) =
           calls m @ [GetAttributionMethod (Some B) (Some True), Unhook A,
                      Load \<lparr>method_name = B, instance_id = fresh m\<rparr>]
       \<and> length (filter (\<lambda>c. c = Unhook A)
            (drop (length (calls m)) (calls (snd (get_attribution_method m (Some B) (Some True)))))) = 1"
  using assms by (simp add: resolve_override truthy_flag_def)

theorem override_replaces_default_witness:
  "attribution_method (snd (get_attribution_method model_A (Some ''B'') (Some True))) =
           Some \<lparr>method_name = ''B'', instance_id = 1\<rparr>
   \<and> length (filter (\<lambda>c. c = Unhook method_A)
            (calls (snd (get_attribution_method model_A (Some ''B'') (Some True))))) = 1"
  using override_replaces_default [of model_A method_A "''B''"]
  by (simp add: sample_defs)

section \<open>Claims about the constructor\<close>

text \<open>
  C10: \<^verbatim>\<open>__init__\<close> with the attribution method omitted (\<^verbatim>\<open>None\<close>) raises
  MissingAttributionMethodError, and an instance that \<^verbatim>\<open>__init__\<close> returns, whatever
  its arguments, has a stored default method.
\<close>

theorem init_without_method_raises:
  "(init truthy_net pre_model cuda None :: error + ('enc, 'v, 'net) AttributionModel)
      = Inl MissingAttributionMethodError
   \<and> (\<forall>m :: ('enc, 'v, 'net) AttributionModel.
        init truthy_net pre_model cuda method = Inr m \<longrightarrow> attribution_method m \<noteq> None)"
  by (auto simp: init_def setup_model_def resolve_defs Let_def
           split: option.splits if_splits prod.splits sum.splits)

theorem init_without_method_raises_witness:
  "(init (\<lambda>net. True) None False None :: error + (string list \<times> bool, nat, unit) AttributionModel)
      = Inl MissingAttributionMethodError
   \<and> (init (\<lambda>net. True) None False (Some ''A'') :: error + (string list \<times> bool, nat, unit) AttributionModel)
      = Inr (model_A\<lparr>calls := [GetAttributionMethod (Some ''A'') (Some False), Load method_A]\<rparr>)
   \<and> attribution_method (model_A\<lparr>calls := [GetAttributionMethod (Some ''A'') (Some False), Load method_A]\<rparr>
        :: (string list \<times> bool, nat, unit) AttributionModel) \<noteq> None"
proof -
  have run: "(init (\<lambda>net. True) None False (Some ''A'') :: error + (string list \<times> bool, nat, unit) AttributionModel)
      = Inr (model_A\<lparr>calls := [GetAttributionMethod (Some ''A'') (Some False), Load method_A]\<rparr>)"
    by (simp add: init_def setup_model_def resolve_defs sample_defs Let_def)
  note fact = init_without_method_raises [of "\<lambda>net. True" None False "Some ''A''"]
  have raises: "(init (\<lambda>net. True) None False None :: error + (string list \<times> bool, nat, unit) AttributionModel)
      = Inl MissingAttributionMethodError"
    by (rule fact [THEN conjunct1])
  have stored: "attribution_method (model_A\<lparr>calls := [GetAttributionMethod (Some ''A'') (Some False), Load method_A]\<rparr>
        :: (string list \<times> bool, nat, unit) AttributionModel) \<noteq> None"
    by (rule fact [THEN conjunct2, rule_format, OF run])
  from raises run stored show ?thesis by blast
qed

section \<open>Claims about attribute\<close>

text \<open>
  C5: for the empty input sequence \<^verbatim>\<open>attribute\<close> returns the empty list and the model
  is as it was: no call of \<^verbatim>\<open>encode_texts\<close>, \<^verbatim>\<open>generate\<close>,
  \<^verbatim>\<open>get_attribution_method\<close> or \<^verbatim>\<open>prepare_and_attribute\<close> is made, and
  nothing is raised, whatever the other arguments.
\<close>

theorem attribute_empty_sequence:
  "attribute ad m (Seq []) refs method ovr st en kw = (Inr (Many []), m)
   \<and> calls (snd (attribute ad m (Seq []) refs method ovr st en kw)) = calls m"
  by (simp add: attribute_falsy_texts truthy_text_def)

text \<open>
  C4, as stated: LengthMismatchError is raised exactly when texts and reference texts, a
  single string counting as one text, have differing lengths that are not zero. The empty
  string counts as one text and yet returns the empty list before any length is compared.
\<close>

theorem empty_string_skips_length_check_counterexample:
  "length (text_list (Str '''')) = 1 \<and> length (text_list (Seq [''a'', ''b''])) = 2
   \<and> fst (attribute sample_adapter model_A (Str '''') (Some (Seq [''a'', ''b''])) None None
            (Some 1) None no_kwargs) = Inr (Many [])"
  by (simp add: attribute_falsy_texts truthy_text_def text_list_def)

text \<open>
  C4, amended: \<^verbatim>\<open>attribute\<close> raises LengthMismatchError exactly when the texts are
  not empty (neither the empty string nor the empty sequence), reference texts are given,
  and the number of reference texts is not zero and differs from the number of texts, a
  single string counting as one; the error carries the two numbers. With as many reference
  texts as texts it is not raised.
\<close>

theorem length_mismatch_iff:
  "(fst (attribute ad m texts refs method ovr st en kw) = Inl (LengthMismatchError a b)
     \<longleftrightarrow> truthy_text texts
          \<and> (\<exists>r. refs = Some r \<and> text_list r \<noteq> []
                \<and> a = length (text_list texts) \<and> b = length (text_list r) \<and> a \<noteq> b))
   \<and> (refs = Some r \<and> length (text_list r) = length (text_list texts)
        \<longrightarrow> fst (attribute ad m texts refs method ovr st en kw) \<noteq> Inl (LengthMismatchError a b))"
proof -
  have main: "fst (attribute ad m texts refs method ovr st en kw) = Inl (LengthMismatchError a b)
     \<longleftrightarrow> truthy_text texts
          \<and> (\<exists>r. refs = Some r \<and> text_list r \<noteq> []
                \<and> a = length (text_list texts) \<and> b = length (text_list r) \<and> a \<noteq> b)"
  proof (cases "truthy_text texts")
    case False
    then show ?thesis by (simp add: attribute_falsy_texts)
  next
    case True
    show ?thesis
    proof (cases "format_input_texts texts refs")
      case (Inl e)
      with True have "fst (attribute ad m texts refs method ovr st en kw) = Inl e"
        by (simp add: attribute_length_error)
      with Inl True show ?thesis
        by (auto simp: format_input_texts_eq split: option.splits if_splits)
    next
      case (Inr p)
      with True have "fst (attribute ad m texts refs method ovr st en kw) \<noteq> Inl (LengthMismatchError a b)"
        by (rule attribute_past_check_no_length_error)
      with Inr True show ?thesis
        by (auto simp: format_input_texts_eq split: option.splits if_splits)
    qed
  qed
  then show ?thesis by auto
qed

theorem length_mismatch_iff_witness:
  "fst (attribute sample_adapter model_A (Seq [''a'']) (Some (Seq [''x'', ''y''])) None None
          (Some 1) None no_kwargs) = Inl (LengthMismatchError 1 2)
   \<and> fst (attribute sample_adapter model_A (Seq [''a'']) (Some (Str ''x'')) None None
          (Some 1) None no_kwargs) \<noteq> Inl (LengthMismatchError 1 2)"
  using length_mismatch_iff [of sample_adapter model_A "Seq [''a'']" "Some (Seq [''x'', ''y''])"
          None None "Some 1" None no_kwargs 1 2 "Seq [''x'', ''y'']"]
        length_mismatch_iff [of sample_adapter model_A "Seq [''a'']" "Some (Str ''x'')"
          None None "Some 1" None no_kwargs 1 2 "Str ''x''"]
  by (simp add: truthy_text_def text_list_def)

text \<open>
  C6, as stated: every call with non-empty texts, no stored default and no method argument
  raises MissingAttributionMethodError. The length check comes first: with one text and two
  reference texts the call raises LengthMismatchError instead. And when the references are
  to be generated, the call of \<^verbatim>\<open>generate\<close> comes before the method is resolved: with
  \<^verbatim>\<open>return_generation_output\<close> among the generation options it raises TypeError.
\<close>

theorem length_check_precedes_method_counterexample:
  "attribution_method model_none = None
   \<and> fst (attribute sample_adapter model_none (Seq [''a'']) (Some (Seq [''x'', ''y''])) None None
          (Some 1) None no_kwargs) = Inl (LengthMismatchError 1 2)
   \<and> fst (attribute sample_adapter model_none (Seq [''a'']) None None None
          (Some 1) None clash_kwargs) = Inl TypeError"
  by (simp add: attribute_def format_input_texts_def truthy_text_def truthy_list_def
        has_key_def model_none_def clash_kwargs_def Let_def)

text \<open>
  C6, amended: every call with non-empty texts whose reference texts pass the length check
  of \<^verbatim>\<open>format_input_texts\<close> (they are omitted, empty, or as many as the texts) and
  whose generation options, when the references are to be generated (they are omitted or
  empty), do not hold the keyword \<^verbatim>\<open>return_generation_output\<close>, on a model with no
  stored default and with the method argument omitted, raises MissingAttributionMethodError.
\<close>

theorem missing_method_raises:
  assumes "truthy_text texts" and "attribution_method m = None"
    and "format_input_texts texts refs = Inr p"
    and "references_given refs \<or> \<not> has_key (generation_args_of kw) ''return_generation_output''"
  shows "fst (attribute ad m texts refs None ovr st en kw) = Inl MissingAttributionMethodError"
proof -
  have nm: "\<not> truthy_str None" by (simp add: truthy_str_def)
  show ?thesis
  proof (cases "references_given refs")
    case True
    with assms show ?thesis
      by (simp add: attribute_with_references [OF assms(1,3) True] resolve_no_method [OF nm])
  next
    case False
    with assms(4) have nc: "\<not> has_key (generation_args_of kw) ''return_generation_output''"
      by simp
    from assms(2) show ?thesis
      by (simp add: attribute_without_references [OF assms(1,3) False nc]
            resolve_no_method [OF nm] log_def)
  qed
qed

theorem missing_method_raises_witness:
  "fst (attribute sample_adapter model_none (Str ''a'') None None None (Some 1) None no_kwargs)
     = Inl MissingAttributionMethodError
   \<and> fst (attribute sample_adapter model_none (Seq [''a'', ''b'']) (Some (Seq [''x'', ''y'']))
            None None (Some 1) None clash_kwargs) = Inl MissingAttributionMethodError"
proof -
  have nodef: "attribution_method model_none = None" by (simp add: model_none_def)
  have t1: "truthy_text (Str ''a'')" by (simp add: truthy_text_def)
  have f1: "format_input_texts (Str ''a'') None = Inr ([''a''], None)"
    by (simp add: format_input_texts_def)
  have g1: "references_given None
              \<or> \<not> has_key (generation_args_of no_kwargs) ''return_generation_output''"
    by (simp add: generation_args_of_def no_kwargs_def has_key_def)
  have t2: "truthy_text (Seq [''a'', ''b''])" by (simp add: truthy_text_def)
  have f2: "format_input_texts (Seq [''a'', ''b'']) (Some (Seq [''x'', ''y'']))
              = Inr ([''a'', ''b''], Some [''x'', ''y''])"
    by (simp add: format_input_texts_def)
  have g2: "references_given (Some (Seq [''x'', ''y'']))
              \<or> \<not> has_key (generation_args_of clash_kwargs) ''return_generation_output''"
    by (simp add: references_given_def text_list_def)
  have r1: "fst (attribute sample_adapter model_none (Str ''a'') None None None (Some 1) None
                   no_kwargs) = Inl MissingAttributionMethodError"
    by (rule missing_method_raises [OF t1 nodef f1 g1])
  have r2: "fst (attribute sample_adapter model_none (Seq [''a'', ''b''])
                   (Some (Seq [''x'', ''y''])) None None (Some 1) None clash_kwargs)
              = Inl MissingAttributionMethodError"
    by (rule missing_method_raises [OF t2 nodef f2 g2])
  from r1 r2 show ?thesis by simp
qed

text \<open>
  C8, as stated: for every call with non-empty texts and the reference texts omitted,
  \<^verbatim>\<open>encode_texts\<close> is called and then \<^verbatim>\<open>generate\<close>, before the attribution
  method runs. With \<^verbatim>\<open>return_generation_output\<close> among the generation options the call
  statement of \<^verbatim>\<open>generate\<close> gives that keyword twice: after \<^verbatim>\<open>encode_texts\<close> the
  call raises TypeError, and \<^verbatim>\<open>generate\<close> is not called.
\<close>

theorem generate_keyword_twice_counterexample:
  "attribute sample_adapter model_A (Seq [''a'']) None None None (Some 1) None clash_kwargs
     = (Inl TypeError, model_A\<lparr>calls := [EncodeTexts [''a''] True]\<rparr>)"
  by (simp add: attribute_def format_input_texts_def truthy_text_def truthy_list_def
        has_key_def log_def sample_defs Let_def)

text \<open>
  C8, amended: for every call with non-empty texts, the reference texts omitted, and
  generation options that do not hold the keyword \<^verbatim>\<open>return_generation_output\<close>, the
  first call \<^verbatim>\<open>attribute\<close> makes is \<^verbatim>\<open>encode_texts\<close> on the texts with
  \<^verbatim>\<open>return_baseline=True\<close>, the second is \<^verbatim>\<open>generate\<close> on the encoding that
  came back, and the method is resolved only then. A later call of
  \<^verbatim>\<open>prepare_and_attribute\<close> is on that encoding with the generated texts as references;
  and when a method is resolved and the attribution options repeat no keyword, that call is
  the last one made and its value is the result.
\<close>

theorem references_generated_first:
  assumes "truthy_text texts"
    and "\<not> has_key (generation_args_of kw) ''return_generation_output''"
  shows "\<exists>rest.
     calls (snd (attribute ad m texts None meth ovr st en kw)) =
       calls m @ [EncodeTexts (text_list texts) True,
                  Generate (encode_texts ad (text_list texts) True) False (generation_args_of kw),
                  GetAttributionMethod meth ovr] @ rest
     \<and> (\<forall>c \<in> set rest. \<forall>fa srcs rs a b aa. c = PrepareAndAttribute fa srcs rs a b aa \<longrightarrow>
           srcs = Encoded (encode_texts ad (text_list texts) True)
           \<and> rs = generate ad (encode_texts ad (text_list texts) True) False (generation_args_of kw))
     \<and> (\<forall>fa. fst (get_attribution_method m meth ovr) = Inr fa
              \<and> \<not> keyword_clash (merged_attribution_args ad fa None kw) \<longrightarrow>
           fst (attribute ad m texts None meth ovr st en kw) =
             Inr (prepare_and_attribute ad fa (Encoded (encode_texts ad (text_list texts) True))
                    (generate ad (encode_texts ad (text_list texts) True) False (generation_args_of kw))
                    st en (merged_attribution_args ad fa None kw))
           \<and> rest \<noteq> []
           \<and> last rest =
               PrepareAndAttribute fa (Encoded (encode_texts ad (text_list texts) True))
                 (generate ad (encode_texts ad (text_list texts) True) False (generation_args_of kw))
                 st en (merged_attribution_args ad fa None kw))"
proof -
  define enc where "enc = encode_texts ad (text_list texts) True"
  define ga where "ga = generation_args_of kw"
  define m1 where "m1 = log (Generate enc False ga) (log (EncodeTexts (text_list texts) True) m)"
  have fmt: "format_input_texts texts None = Inr (text_list texts, None)"
    by (simp add: format_input_texts_eq)
  have ng: "\<not> references_given None" by (simp add: references_given_def)
  have inputs: "method_inputs ad texts None kw = (Encoded enc, generate ad enc False ga)"
    by (simp add: method_inputs_def references_given_def enc_def ga_def)
  have m1_calls: "calls m1 = calls m @ [EncodeTexts (text_list texts) True, Generate enc False ga]"
    by (simp add: m1_def log_def)
  obtain r1 m2 where run: "get_attribution_method m1 meth ovr = (r1, m2)"
    by (cases "get_attribution_method m1 meth ovr")
  have same: "fst (get_attribution_method m meth ovr) = r1"
    using run resolve_after_log [of "Generate enc False ga"
                 "log (EncodeTexts (text_list texts) True) m" meth ovr]
          resolve_after_log [of "EncodeTexts (text_list texts) True" m meth ovr]
    by (simp add: m1_def)
  obtain ev where "calls (snd (get_attribution_method m1 meth ovr)) =
        calls m1 @ GetAttributionMethod meth ovr # ev"
      and ev_kind: "\<forall>c \<in> set ev. (\<exists>fa. c = Unhook fa) \<or> (\<exists>fa. c = Load fa)"
    using resolve_calls [of m1 meth ovr] by blast
  with run m1_calls have m2_calls: "calls m2 = calls m @ [EncodeTexts (text_list texts) True,
        Generate enc False ga, GetAttributionMethod meth ovr] @ ev"
    by simp
  note step = attribute_without_references [OF assms(1) fmt ng assms(2), of ad m meth ovr st en,
      folded enc_def ga_def, folded m1_def, unfolded run inputs]
  show ?thesis
  proof (cases r1)
    case (Inl e)
    with step have "attribute ad m texts None meth ovr st en kw = (Inl e, m2)" by simp
    with m2_calls ev_kind same Inl show ?thesis
      unfolding enc_def [symmetric] ga_def [symmetric]
      by (intro exI [of _ ev]) auto
  next
    case (Inr fa)
    define aa where "aa = merged_attribution_args ad fa None kw"
    show ?thesis
    proof (cases "keyword_clash aa")
      case True
      with step Inr have "attribute ad m texts None meth ovr st en kw = (Inl TypeError, log (GetAttributionArgs fa (method_kwargs None kw)) m2)"
        by (simp add: aa_def Let_def)
      with m2_calls ev_kind same Inr True show ?thesis
        unfolding enc_def [symmetric] ga_def [symmetric]
        by (intro exI [of _ "ev @ [GetAttributionArgs fa (method_kwargs None kw)]"])
           (auto simp: log_def aa_def)
    next
      case False
      with step Inr have "attribute ad m texts None meth ovr st en kw =
          (Inr (prepare_and_attribute ad fa (Encoded enc) (generate ad enc False ga) st en aa),
           log (PrepareAndAttribute fa (Encoded enc) (generate ad enc False ga) st en aa)
             (log (GetAttributionArgs fa (method_kwargs None kw)) m2))"
        by (simp add: aa_def Let_def)
      with m2_calls ev_kind same Inr False show ?thesis
        unfolding enc_def [symmetric] ga_def [symmetric]
        by (intro exI [of _ "ev @ [GetAttributionArgs fa (method_kwargs None kw),
               PrepareAndAttribute fa (Encoded enc) (generate ad enc False ga) st en aa]"])
           (auto simp: log_def aa_def)
    qed
  qed
qed

theorem references_generated_first_witness:
  "attribute sample_adapter model_A (Seq [''a'', ''b'']) None None None (Some 1) None no_kwargs =
     (Inr (Many [(''a'', ''a''), (''b'', ''b'')]),
      model_A\<lparr>calls :=
        [EncodeTexts [''a'', ''b''] True, Generate ([''a'', ''b''], True) False Map.empty,
         GetAttributionMethod None None, GetAttributionArgs method_A no_kwargs,
         PrepareAndAttribute method_A (Encoded ([''a'', ''b''], True)) [''a'', ''b''] (Some 1) None
           Map.empty]\<rparr>)
   \<and> (\<exists>rest. calls (snd (attribute sample_adapter model_A (Seq [''a'', ''b'']) None None None
                 (Some 1) None no_kwargs)) =
         [EncodeTexts [''a'', ''b''] True, Generate ([''a'', ''b''], True) False Map.empty,
          GetAttributionMethod None None] @ rest
        \<and> rest \<noteq> []
        \<and> last rest = PrepareAndAttribute method_A (Encoded ([''a'', ''b''], True)) [''a'', ''b'']
                        (Some 1) None Map.empty)"
proof -
  have run: "attribute sample_adapter model_A (Seq [''a'', ''b'']) None None None (Some 1) None no_kwargs =
     (Inr (Many [(''a'', ''a''), (''b'', ''b'')]),
      model_A\<lparr>calls :=
        [EncodeTexts [''a'', ''b''] True, Generate ([''a'', ''b''], True) False Map.empty,
         GetAttributionMethod None None, GetAttributionArgs method_A no_kwargs,
         PrepareAndAttribute method_A (Encoded ([''a'', ''b''], True)) [''a'', ''b''] (Some 1) None
           Map.empty]\<rparr>)"
    by (simp add: attribute_def format_input_texts_def truthy_text_def truthy_list_def
          has_key_def resolve_defs sample_defs Let_def)
  have nonempty: "truthy_text (Seq [''a'', ''b''])" by (simp add: truthy_text_def)
  have nokey: "\<not> has_key (generation_args_of no_kwargs) ''return_generation_output''"
    by (simp add: generation_args_of_def no_kwargs_def has_key_def)
  have resolved: "fst (get_attribution_method model_A None None) = Inr method_A"
    by (simp add: resolve_defs sample_defs Let_def)
  have noclash: "\<not> keyword_clash (merged_attribution_args sample_adapter method_A None no_kwargs)"
    by (simp add: keyword_clash_def merged_attribution_args_def method_kwargs_def has_key_def
          sample_defs)
  have args: "merged_attribution_args sample_adapter method_A None no_kwargs = Map.empty"
    by (simp add: merged_attribution_args_def method_kwargs_def sample_defs)
  from references_generated_first [OF nonempty nokey, of sample_adapter model_A None None "Some 1" None]
  obtain rest where
    log: "calls (snd (attribute sample_adapter model_A (Seq [''a'', ''b'']) None None None
                 (Some 1) None no_kwargs)) =
         calls model_A @ [EncodeTexts (text_list (Seq [''a'', ''b''])) True,
           Generate (encode_texts sample_adapter (text_list (Seq [''a'', ''b''])) True) False
             (generation_args_of no_kwargs),
           GetAttributionMethod None None] @ rest"
    and run_last: "\<forall>fa. fst (get_attribution_method model_A None None) = Inr fa
              \<and> \<not> keyword_clash (merged_attribution_args sample_adapter fa None no_kwargs) \<longrightarrow>
           rest \<noteq> []
           \<and> last rest =
               PrepareAndAttribute fa (Encoded (encode_texts sample_adapter (text_list (Seq [''a'', ''b''])) True))
                 (generate sample_adapter (encode_texts sample_adapter (text_list (Seq [''a'', ''b''])) True)
                    False (generation_args_of no_kwargs))
                 (Some 1) None (merged_attribution_args sample_adapter fa None no_kwargs)"
    by blast
  from run_last resolved noclash have "rest \<noteq> []"
    and "last rest = PrepareAndAttribute method_A (Encoded ([''a'', ''b''], True)) [''a'', ''b'']
                        (Some 1) None Map.empty"
    by (auto simp: args) (simp_all add: sample_adapter_def text_list_def generation_args_of_def
          no_kwargs_def)
  with log run show ?thesis
    by (intro conjI exI [of _ rest])
       (simp_all add: sample_defs text_list_def generation_args_of_def)
qed







section \<open>Claims about load\<close>

text \<open>
  C9: whatever the \<^verbatim>\<open>from_hf\<close> option is (a true value, a false value, or absent),
  \<^verbatim>\<open>load\<close> returns the Huggingface adapter constructed with the model name, the
  attribution method and the remaining options; the two branches of the conditional are the
  same call.
\<close>

theorem load_ignores_from_hf:
  "load truthy hf name method kw = hf name method (kw(''from_hf'' := None))
   \<and> load truthy hf name method (kw(''from_hf'' \<mapsto> v)) = load truthy hf name method (kw(''from_hf'' := None))
   \<and> AttributionModel_load truthy hf name method kw = hf name method (kw(''from_hf'' := None))"
  by (simp add: load_def AttributionModel_load_def Let_def)


end
